theory Spec2Isabelle
  imports Main
begin

section \<open>Python values, dictionaries and exceptions\<close>

text \<open>
  The module \<^verbatim>\<open>trl/models/modeling_base.py\<close> defines one class,
  \<^verbatim>\<open>PreTrainedModelWrapper\<close>. Its methods handle arbitrary Python objects, of which
  the code distinguishes three kinds: strings (\<^verbatim>\<open>isinstance(x, str)\<close>), instances of
  \<^verbatim>\<open>transformers.PreTrainedModel\<close>, and everything else. Objects of the host
  libraries are opaque and are identified by their identity (a number); \<open>None\<close>, integers
  and strings are the builtin values. \<open>PyObject tn i\<close> is the object with identity \<open>i\<close>
  of a type named \<open>tn\<close> that is neither \<^verbatim>\<open>str\<close> nor a subclass of
  \<^verbatim>\<open>PreTrainedModel\<close> (a class object such as \<^verbatim>\<open>AutoModelForCausalLM\<close>, a
  float, a list, ...).
\<close>

type_synonym obj_id = nat

datatype pyval =
    PyNone
  | PyInt int
  | PyStr string
  | PyModel obj_id
  | PyObject string obj_id

text \<open>
  A keyword-argument dictionary: string keys, insertion ordered, no key twice. It is an
  association list; \<open>distinct (map fst d)\<close> is the invariant of a Python \<^verbatim>\<open>dict\<close>.
  \<open>dict_set\<close> is the statement \<^verbatim>\<open>d[key] = value\<close>: an existing key keeps its place
  and gets the new value, a new key is appended.
\<close>

type_synonym kwargs = "(string \<times> pyval) list"

fun dict_set :: "string \<Rightarrow> pyval \<Rightarrow> kwargs \<Rightarrow> kwargs" where
  "dict_set key val [] = [(key, val)]"
| "dict_set key val ((k, v) # d) =
     (if k = key then (key, val) # d else (k, v) # dict_set key val d)"

text \<open>\<^verbatim>\<open>{**a, **b}\<close>: the entries of \<open>b\<close> are stored into a copy of \<open>a\<close>, in order.\<close>

fun dict_merge :: "kwargs \<Rightarrow> kwargs \<Rightarrow> kwargs" where
  "dict_merge a [] = a"
| "dict_merge a ((k, v) # b) = dict_merge (dict_set k v a) b"

definition keys :: "kwargs \<Rightarrow> string set" where
  "keys d = set (map fst d)"

section \<open>The class and its allow-list\<close>

text \<open>
  The class attributes that the class methods read through \<^verbatim>\<open>cls\<close>. A subclass
  overrides \<^verbatim>\<open>transformers_parent_class\<close> (and may override
  \<^verbatim>\<open>supported_args\<close>); every method below is the one it inherits.
  \<^verbatim>\<open>supported_args\<close> is a tuple of strings.
\<close>

record pyclass =
  transformers_parent_class :: pyval
  supported_args :: "string list"

definition PreTrainedModelWrapper :: pyclass where
  "PreTrainedModelWrapper =
     \<lparr>transformers_parent_class = PyNone, supported_args = [''summary_dropout_prob'']\<rparr>"

section \<open>\<^verbatim>\<open>_split_kwargs\<close>\<close>

text \<open>
  The loop \<^verbatim>\<open>for key, value in kwargs.items()\<close> over the remaining items, with the two
  dictionaries built so far. \<^verbatim>\<open>key in cls.supported_args\<close> is membership in the tuple.
\<close>

fun split_items :: "string list \<Rightarrow> kwargs \<Rightarrow> kwargs \<Rightarrow> kwargs \<Rightarrow> kwargs \<times> kwargs" where
  "split_items sa [] supported_kwargs unsupported_kwargs =
     (supported_kwargs, unsupported_kwargs)"
| "split_items sa ((key, val) # items) supported_kwargs unsupported_kwargs =
     (if key \<in> set sa
      then split_items sa items (dict_set key val supported_kwargs) unsupported_kwargs
      else split_items sa items supported_kwargs (dict_set key val unsupported_kwargs))"

definition split_kwargs :: "pyclass \<Rightarrow> kwargs \<Rightarrow> kwargs \<times> kwargs" where
  "split_kwargs cls kwargs = split_items (supported_args cls) kwargs [] []"

section \<open>Exceptions and the host libraries\<close>

text \<open>
  \<open>ValueError\<close> is the exception \<^verbatim>\<open>from_pretrained\<close> raises itself, with its
  message. \<open>TypeError\<close> and \<open>AttributeError\<close> are raised by the interpreter: an
  argument list that does not fit a signature, an attribute that a builtin value does not
  have (the type's name and the attribute's). \<open>External e\<close> is the exception object
  \<open>e\<close> raised inside a method of a host-library object and propagated unchanged.
\<close>

datatype error =
    ValueError string
  | TypeError
  | AttributeError string string
  | External pyval

text \<open>
  The attributes the source looks up on objects it does not define, and their names.
\<close>

datatype attr = From_pretrained | Push_to_hub | Save_pretrained | State_dict

fun attr_name :: "attr \<Rightarrow> string" where
  "attr_name From_pretrained = ''from_pretrained''"
| "attr_name Push_to_hub = ''push_to_hub''"
| "attr_name Save_pretrained = ''save_pretrained''"
| "attr_name State_dict = ''state_dict''"

fun type_name :: "pyval \<Rightarrow> string" where
  "type_name PyNone = ''NoneType''"
| "type_name (PyInt i) = ''int''"
| "type_name (PyStr s) = ''str''"
| "type_name (PyModel m) = ''PreTrainedModel''"
| "type_name (PyObject tn i) = tn"

fun isinstance_str :: "pyval \<Rightarrow> bool" where
  "isinstance_str (PyStr s) = True"
| "isinstance_str x = False"

fun isinstance_PreTrainedModel :: "pyval \<Rightarrow> bool" where
  "isinstance_PreTrainedModel (PyModel m) = True"
| "isinstance_PreTrainedModel x = False"

text \<open>\<open>None\<close>, integers and strings have none of the four attributes.\<close>

fun builtin :: "pyval \<Rightarrow> bool" where
  "builtin PyNone = True"
| "builtin (PyInt i) = True"
| "builtin (PyStr s) = True"
| "builtin x = False"

text \<open>
  The host libraries (\<^verbatim>\<open>transformers\<close>, the hub, the file system) are a parameter:
  \<open>ext obj a args kwargs w\<close> is what \<^verbatim>\<open>obj.a(*args, **kwargs)\<close> does in the world
  \<open>w\<close> for an object \<open>obj\<close> of theirs: it raises an exception object (\<open>Inl\<close>) or
  returns a value (\<open>Inr\<close>), and leaves a new world.
\<close>

type_synonym 'w ext =
  "pyval \<Rightarrow> attr \<Rightarrow> pyval list \<Rightarrow> kwargs \<Rightarrow> 'w \<Rightarrow> (pyval + pyval) \<times> 'w"

definition call_method ::
  "'w ext \<Rightarrow> pyval \<Rightarrow> attr \<Rightarrow> pyval list \<Rightarrow> kwargs \<Rightarrow> 'w \<Rightarrow> (error + pyval) \<times> 'w" where
  "call_method ext obj a args kwargs w =
     (if builtin obj then (Inl (AttributeError (type_name obj) (attr_name a)), w)
      else case ext obj a args kwargs w of
             (Inl exc, w') \<Rightarrow> (Inl (External exc), w')
           | (Inr v, w') \<Rightarrow> (Inr v, w'))"

section \<open>The wrapper instance and \<^verbatim>\<open>__init__\<close>\<close>

record wrapper =
  pretrained_model :: pyval

text \<open>
  \<^verbatim>\<open>__init__(self, pretrained_model=None, **kwargs)\<close> stores its first argument and
  never reads \<^verbatim>\<open>kwargs\<close>.
\<close>

definition init :: "pyval \<Rightarrow> kwargs \<Rightarrow> wrapper" where
  "init pm kwargs = \<lparr>pretrained_model = pm\<rparr>"

definition dict_del :: "string \<Rightarrow> kwargs \<Rightarrow> kwargs" where
  "dict_del key d = filter (\<lambda>(k, v). k \<noteq> key) d"

text \<open>
  The call \<^verbatim>\<open>cls(*args, **kwargs)\<close>: the interpreter binds the arguments to the
  parameters of \<^verbatim>\<open>__init__\<close> and raises \<^verbatim>\<open>TypeError\<close> when a parameter gets two
  values or there are more than one positional argument.
\<close>

definition new_wrapper :: "pyval list \<Rightarrow> kwargs \<Rightarrow> error + wrapper" where
  "new_wrapper args kwargs =
     (if ''self'' \<in> keys kwargs then Inl TypeError
      else case args of
          [] \<Rightarrow>
            (case map_of kwargs ''pretrained_model'' of
               None \<Rightarrow> Inr (init PyNone kwargs)
             | Some pm \<Rightarrow> Inr (init pm (dict_del ''pretrained_model'' kwargs)))
        | [pm] \<Rightarrow>
            (if ''pretrained_model'' \<in> keys kwargs then Inl TypeError
             else Inr (init pm kwargs))
        | _ \<Rightarrow> Inl TypeError)"

section \<open>\<^verbatim>\<open>from_pretrained\<close>\<close>

text \<open>
  The local variable \<^verbatim>\<open>kwargs\<close> holds \<open>None\<close> or a dictionary; the first statement
  of the body tests \<^verbatim>\<open>kwargs is not None\<close>.
\<close>

definition kwargs_buckets :: "pyclass \<Rightarrow> kwargs option \<Rightarrow> kwargs \<times> kwargs" where
  "kwargs_buckets cls kwargs =
     (case kwargs of
        Some kw \<Rightarrow> split_kwargs cls kw
      | None \<Rightarrow> ([], []))"

definition bad_type_message :: "pyval \<Rightarrow> string" where
  "bad_type_message x =
     ''pretrained_model_name_or_path should be a string or a PreTrainedModel, but is <class ''
       @ [CHR 0x27] @ type_name x @ [CHR 0x27] @ ''>''"

definition from_pretrained ::
  "'w ext \<Rightarrow> pyclass \<Rightarrow> pyval \<Rightarrow> pyval list \<Rightarrow> kwargs option \<Rightarrow> 'w \<Rightarrow> (error + wrapper) \<times> 'w" where
  "from_pretrained ext cls pretrained_model_name_or_path model_args kwargs w =
     (case kwargs_buckets cls kwargs of
        (trl_model_args, pretrained_kwargs) \<Rightarrow>
          if isinstance_str pretrained_model_name_or_path then
            (case call_method ext (transformers_parent_class cls) From_pretrained
                    (pretrained_model_name_or_path # model_args) pretrained_kwargs w of
               (Inl e, w') \<Rightarrow> (Inl e, w')
             | (Inr pm, w') \<Rightarrow> (new_wrapper [pm] trl_model_args, w'))
          else if isinstance_PreTrainedModel pretrained_model_name_or_path then
            (new_wrapper [pretrained_model_name_or_path] trl_model_args, w)
          else (Inl (ValueError (bad_type_message pretrained_model_name_or_path)), w))"

text \<open>
  A call \<^verbatim>\<open>cls.from_pretrained(*args, **kwargs)\<close>: the first positional argument (or
  the keyword of that name) is \<^verbatim>\<open>pretrained_model_name_or_path\<close>, the other positional
  arguments are \<^verbatim>\<open>model_args\<close>, and the remaining keywords are collected by the
  \<^verbatim>\<open>**kwargs\<close> parameter into a new dictionary.
\<close>

definition bind_from_pretrained ::
  "pyval list \<Rightarrow> kwargs \<Rightarrow> error + (pyval \<times> pyval list \<times> kwargs option)" where
  "bind_from_pretrained args kwargs =
     (if ''cls'' \<in> keys kwargs then Inl TypeError
      else case args of
          [] \<Rightarrow>
            (case map_of kwargs ''pretrained_model_name_or_path'' of
               None \<Rightarrow> Inl TypeError
             | Some x \<Rightarrow> Inr (x, [], Some (dict_del ''pretrained_model_name_or_path'' kwargs)))
        | x # model_args \<Rightarrow>
            (if ''pretrained_model_name_or_path'' \<in> keys kwargs then Inl TypeError
             else Inr (x, model_args, Some kwargs)))"

section \<open>The methods that forward to the wrapped model\<close>

definition push_to_hub ::
  "'w ext \<Rightarrow> wrapper \<Rightarrow> pyval list \<Rightarrow> kwargs \<Rightarrow> 'w \<Rightarrow> (error + pyval) \<times> 'w" where
  "push_to_hub ext self args kwargs w =
     call_method ext (pretrained_model self) Push_to_hub args kwargs w"

definition save_pretrained ::
  "'w ext \<Rightarrow> wrapper \<Rightarrow> pyval list \<Rightarrow> kwargs \<Rightarrow> 'w \<Rightarrow> (error + pyval) \<times> 'w" where
  "save_pretrained ext self args kwargs w =
     call_method ext (pretrained_model self) Save_pretrained args kwargs w"

definition state_dict ::
  "'w ext \<Rightarrow> wrapper \<Rightarrow> pyval list \<Rightarrow> kwargs \<Rightarrow> 'w \<Rightarrow> (error + pyval) \<times> 'w" where
  "state_dict ext self args kwargs w =
     call_method ext (pretrained_model self) State_dict args kwargs w"

section \<open>Calling the public methods on an instance\<close>

text \<open>
  The class body defines four public methods: \<^verbatim>\<open>from_pretrained\<close> (a class method),
  \<^verbatim>\<open>push_to_hub\<close>, \<^verbatim>\<open>save_pretrained\<close> and \<^verbatim>\<open>state_dict\<close>; their names are the
  four attributes of \<open>attr\<close>. \<open>invoke ext cls self a args kwargs\<close> is the call
  \<^verbatim>\<open>self.a(*args, **kwargs)\<close> on an instance \<open>self\<close> of class \<open>cls\<close>. The three
  instance methods have the signature \<^verbatim>\<open>(self, *args, **kwargs)\<close>, so a keyword named
  \<^verbatim>\<open>self\<close> is a \<^verbatim>\<open>TypeError\<close>. A call returns a value of the host libraries or a
  new wrapper.
\<close>

datatype outcome = Returned pyval | Created wrapper

definition lift_result :: "('a \<Rightarrow> outcome) \<Rightarrow> (error + 'a) \<times> 'w \<Rightarrow> (error + outcome) \<times> 'w" where
  "lift_result f r =
     (case r of
        (Inl e, w') \<Rightarrow> (Inl e, w')
      | (Inr v, w') \<Rightarrow> (Inr (f v), w'))"

definition invoke ::
  "'w ext \<Rightarrow> pyclass \<Rightarrow> wrapper \<Rightarrow> attr \<Rightarrow> pyval list \<Rightarrow> kwargs \<Rightarrow> 'w \<Rightarrow> (error + outcome) \<times> 'w" where
  "invoke ext cls self a args kwargs w =
     (case a of
        From_pretrained \<Rightarrow>
          (case bind_from_pretrained args kwargs of
             Inl e \<Rightarrow> (Inl e, w)
           | Inr (x, model_args, kw) \<Rightarrow>
               lift_result Created (from_pretrained ext cls x model_args kw w))
      | Push_to_hub \<Rightarrow>
          if ''self'' \<in> keys kwargs then (Inl TypeError, w)
          else lift_result Returned (push_to_hub ext self args kwargs w)
      | Save_pretrained \<Rightarrow>
          if ''self'' \<in> keys kwargs then (Inl TypeError, w)
          else lift_result Returned (save_pretrained ext self args kwargs w)
      | State_dict \<Rightarrow>
          if ''self'' \<in> keys kwargs then (Inl TypeError, w)
          else lift_result Returned (state_dict ext self args kwargs w))"

text \<open>Whether the arguments of a call fit the signature of the method.\<close>

definition binds :: "attr \<Rightarrow> pyval list \<Rightarrow> kwargs \<Rightarrow> bool" where
  "binds a args kwargs =
     (case a of
        From_pretrained \<Rightarrow>
          (case bind_from_pretrained args kwargs of Inl e \<Rightarrow> False | Inr b \<Rightarrow> True)
      | _ \<Rightarrow> ''self'' \<notin> keys kwargs)"

text \<open>
  The same-named method of the wrapped object, called with the same arguments:
  \<^verbatim>\<open>self.pretrained_model.a(*args, **kwargs)\<close>.
\<close>

definition forwarded ::
  "'w ext \<Rightarrow> wrapper \<Rightarrow> attr \<Rightarrow> pyval list \<Rightarrow> kwargs \<Rightarrow> 'w \<Rightarrow> (error + outcome) \<times> 'w" where
  "forwarded ext self a args kwargs w =
     lift_result Returned (call_method ext (pretrained_model self) a args kwargs w)"

text \<open>
  A method is a pure delegation when every call of it that binds does exactly what
  the same call on the wrapped object does: same result or exception, same world.
\<close>

definition delegates :: "'w ext \<Rightarrow> attr \<Rightarrow> bool" where
  "delegates ext a \<longleftrightarrow>
     (\<forall>cls self args kwargs w.
        binds a args kwargs \<longrightarrow>
        invoke ext cls self a args kwargs w = forwarded ext self a args kwargs w)"

section \<open>An example subclass and host\<close>

text \<open>
  A subclass as the comment in \<^verbatim>\<open>from_pretrained\<close> describes it: its
  \<^verbatim>\<open>transformers_parent_class\<close> is the class object \<^verbatim>\<open>AutoModelForCausalLM\<close>.
  The host \<open>ext_log\<close> records every call it receives in the world (the list of calls
  so far) and returns the model with identity 1.
\<close>

definition AutoModelForCausalLM :: pyval where
  "AutoModelForCausalLM = PyObject ''type'' 0"

definition CausalLMWrapper :: pyclass where
  "CausalLMWrapper =
     \<lparr>transformers_parent_class = AutoModelForCausalLM,
      supported_args = [''summary_dropout_prob'']\<rparr>"

type_synonym call_log = "(pyval \<times> attr \<times> pyval list \<times> kwargs) list"

definition ext_log :: "call_log ext" where
  "ext_log obj a args kwargs w = (Inr (PyModel 1), w @ [(obj, a, args, kwargs)])"

text \<open>
  The allow-list names no parameter of \<^verbatim>\<open>__init__\<close>, so that
  \<^verbatim>\<open>cls(pretrained_model, **trl_model_args)\<close> binds.
\<close>

definition init_binds :: "pyclass \<Rightarrow> bool" where
  "init_binds cls \<longleftrightarrow>
     ''self'' \<notin> set (supported_args cls) \<and> ''pretrained_model'' \<notin> set (supported_args cls)"

section \<open>Dictionaries: basic facts\<close>

lemma map_of_dict_set: "map_of (dict_set key val d) = (map_of d)(key \<mapsto> val)"
  by (induction d) (auto simp: fun_eq_iff)

lemma keys_dict_set: "keys (dict_set key val d) = insert key (keys d)"
proof (induction d)
  case Nil
  then show ?case by (simp add: keys_def)
next
  case (Cons p d)
  obtain k v where p: "p = (k, v)" by (cases p)
  from Cons have "set (map fst (dict_set key val d)) = insert key (set (map fst d))"
    by (simp only: keys_def)
  then show ?case unfolding p keys_def by (cases "k = key") auto
qed

lemma dict_set_fresh: "key \<notin> keys d \<Longrightarrow> dict_set key val d = d @ [(key, val)]"
  by (induction d) (auto simp: keys_def)

lemma map_of_dict_merge:
  "distinct (map fst b) \<Longrightarrow> map_of (dict_merge a b) = map_of a ++ map_of b"
proof (induction b arbitrary: a)
  case Nil
  then show ?case by simp
next
  case (Cons p b)
  obtain k v where p: "p = (k, v)" by (cases p)
  from Cons.prems p have fresh: "map_of b k = None" and d: "distinct (map fst b)"
    by (auto simp: map_of_eq_None_iff)
  have "map_of (dict_merge a (p # b)) = map_of (dict_set k v a) ++ map_of b"
    unfolding p dict_merge.simps by (rule Cons.IH [OF d])
  also have "\<dots> = map_of a ++ map_of (p # b)"
    unfolding p map_of_dict_set using fresh
    by (auto simp: fun_eq_iff map_add_def split: option.splits)
  finally show ?case .
qed

section \<open>The two buckets of \<^verbatim>\<open>_split_kwargs\<close>\<close>

text \<open>
  On a dictionary the loop appends each item to the end of its bucket, so each bucket
  is the input filtered, in the input's order.
\<close>

lemma split_items_filter:
  assumes "distinct (map fst items)"
    and "keys supported_kwargs \<inter> keys items = {}"
    and "keys unsupported_kwargs \<inter> keys items = {}"
  shows "split_items sa items supported_kwargs unsupported_kwargs =
         (supported_kwargs @ filter (\<lambda>(k, v). k \<in> set sa) items,
          unsupported_kwargs @ filter (\<lambda>(k, v). k \<notin> set sa) items)"
  using assms
proof (induction items arbitrary: supported_kwargs unsupported_kwargs)
  case Nil
  then show ?case by simp
next
  case (Cons p items)
  obtain key val where p: "p = (key, val)" by (cases p)
  from Cons.prems p have fresh: "key \<notin> keys items" "distinct (map fst items)"
    and out: "key \<notin> keys supported_kwargs" "key \<notin> keys unsupported_kwargs"
    and rest: "keys supported_kwargs \<inter> keys items = {}"
      "keys unsupported_kwargs \<inter> keys items = {}"
    by (auto simp: keys_def)
  show ?case
  proof (cases "key \<in> set sa")
    case True
    have "keys (dict_set key val supported_kwargs) \<inter> keys items = {}"
      using fresh rest by (simp add: keys_dict_set)
    from Cons.IH [OF fresh(2) this rest(2)] True p out show ?thesis
      by (simp add: dict_set_fresh)
  next
    case False
    have "keys (dict_set key val unsupported_kwargs) \<inter> keys items = {}"
      using fresh rest by (simp add: keys_dict_set)
    from Cons.IH [OF fresh(2) rest(1) this] False p out show ?thesis
      by (simp add: dict_set_fresh)
  qed
qed

lemma split_kwargs_filter:
  "distinct (map fst kwargs) \<Longrightarrow>
   split_kwargs cls kwargs =
     (filter (\<lambda>(k, v). k \<in> set (supported_args cls)) kwargs,
      filter (\<lambda>(k, v). k \<notin> set (supported_args cls)) kwargs)"
  using split_items_filter [of kwargs "[]" "[]" "supported_args cls"]
  by (simp add: split_kwargs_def keys_def)

lemma map_of_filter_keys:
  "map_of (filter (\<lambda>(k, v). k \<in> S) d) = map_of d |` S"
  by (induction d) (auto simp: fun_eq_iff restrict_map_def)

lemma map_of_filter_not_keys:
  "map_of (filter (\<lambda>(k, v). k \<notin> S) d) = map_of d |` (- S)"
  by (induction d) (auto simp: fun_eq_iff restrict_map_def)

lemma keys_split_items:
  "keys (fst (split_items sa items s u)) = keys s \<union> (keys items \<inter> set sa) \<and>
   keys (snd (split_items sa items s u)) = keys u \<union> (keys items - set sa)"
proof (induction items arbitrary: s u)
  case Nil
  then show ?case by (simp add: keys_def)
next
  case (Cons p items)
  obtain key val where p: "p = (key, val)" by (cases p)
  have k: "keys ((key, val) # items) = insert key (keys items)"
    by (simp add: keys_def)
  show ?case
  proof (cases "key \<in> set sa")
    case True
    with Cons.IH [of "dict_set key val s" u] show ?thesis
      unfolding p by (auto simp: k keys_dict_set)
  next
    case False
    with Cons.IH [of s "dict_set key val u"] show ?thesis
      unfolding p by (auto simp: k keys_dict_set)
  qed
qed

lemma keys_split_kwargs:
  "keys (fst (split_kwargs cls kwargs)) = keys kwargs \<inter> set (supported_args cls)"
  "keys (snd (split_kwargs cls kwargs)) = keys kwargs - set (supported_args cls)"
  using keys_split_items [of "supported_args cls" kwargs "[]" "[]"]
  by (simp_all add: split_kwargs_def keys_def)

lemma distinct_filter_keys: "distinct (map fst d) \<Longrightarrow> distinct (map fst (filter P d))"
  by (induction d) auto

section \<open>The claims about \<^verbatim>\<open>_split_kwargs\<close>\<close>

text \<open>
  Claim C1. For every keyword-argument dictionary, \<^verbatim>\<open>_split_kwargs\<close> returns two
  dictionaries: a key of the input is in the first (supported) one if and only if it is a
  member of the class's \<^verbatim>\<open>supported_args\<close>, and in the second (unsupported) one
  otherwise, and each key keeps the value it had in the input. Both results are
  dictionaries again (no key twice).
\<close>

theorem split_kwargs_partition:
  assumes "distinct (map fst kwargs)"
  shows "map_of (fst (split_kwargs cls kwargs)) key =
           (if key \<in> set (supported_args cls) then map_of kwargs key else None) \<and>
         map_of (snd (split_kwargs cls kwargs)) key =
           (if key \<in> set (supported_args cls) then None else map_of kwargs key) \<and>
         distinct (map fst (fst (split_kwargs cls kwargs))) \<and>
         distinct (map fst (snd (split_kwargs cls kwargs)))"
  using assms
  by (simp add: split_kwargs_filter map_of_filter_keys map_of_filter_not_keys
      restrict_map_def distinct_filter_keys)

theorem split_kwargs_partition_witness:
  "distinct (map fst [(''summary_dropout_prob'', PyInt 1), (''torch_dtype'', PyStr ''float16'')]) \<and>
   map_of (fst (split_kwargs PreTrainedModelWrapper
       [(''summary_dropout_prob'', PyInt 1), (''torch_dtype'', PyStr ''float16'')]))
     ''summary_dropout_prob'' = Some (PyInt 1) \<and>
   map_of (snd (split_kwargs PreTrainedModelWrapper
       [(''summary_dropout_prob'', PyInt 1), (''torch_dtype'', PyStr ''float16'')]))
     ''summary_dropout_prob'' = None \<and>
   map_of (fst (split_kwargs PreTrainedModelWrapper
       [(''summary_dropout_prob'', PyInt 1), (''torch_dtype'', PyStr ''float16'')]))
     ''torch_dtype'' = None \<and>
   map_of (snd (split_kwargs PreTrainedModelWrapper
       [(''summary_dropout_prob'', PyInt 1), (''torch_dtype'', PyStr ''float16'')]))
     ''torch_dtype'' = Some (PyStr ''float16'')"
proof -
  let ?kw = "[(''summary_dropout_prob'', PyInt 1), (''torch_dtype'', PyStr ''float16'')]"
  have d: "distinct (map fst ?kw)" by simp
  show ?thesis
    using d split_kwargs_partition [OF d, of PreTrainedModelWrapper "''summary_dropout_prob''"]
      split_kwargs_partition [OF d, of PreTrainedModelWrapper "''torch_dtype''"]
    by (simp add: PreTrainedModelWrapper_def)
qed

text \<open>
  Claim C8. The two dictionaries returned by \<^verbatim>\<open>_split_kwargs\<close> have disjoint key
  sets, merged they are the input dictionary, and together they have as many entries as
  the input: nothing is lost and nothing is duplicated.
\<close>

theorem split_kwargs_lossless:
  assumes "distinct (map fst kwargs)"
  shows "keys (fst (split_kwargs cls kwargs)) \<inter> keys (snd (split_kwargs cls kwargs)) = {} \<and>
         map_of (dict_merge (fst (split_kwargs cls kwargs)) (snd (split_kwargs cls kwargs))) =
           map_of kwargs \<and>
         length (fst (split_kwargs cls kwargs)) + length (snd (split_kwargs cls kwargs)) =
           length kwargs"
proof -
  let ?S = "set (supported_args cls)"
  have disj: "keys (fst (split_kwargs cls kwargs)) \<inter> keys (snd (split_kwargs cls kwargs)) = {}"
    by (auto simp: keys_split_kwargs)
  have dsnd: "distinct (map fst (snd (split_kwargs cls kwargs)))"
    using assms by (simp add: split_kwargs_filter distinct_filter_keys)
  have "map_of (dict_merge (fst (split_kwargs cls kwargs)) (snd (split_kwargs cls kwargs))) =
        map_of (fst (split_kwargs cls kwargs)) ++ map_of (snd (split_kwargs cls kwargs))"
    by (rule map_of_dict_merge [OF dsnd])
  also have "\<dots> = (map_of kwargs |` ?S) ++ (map_of kwargs |` (- ?S))"
    using assms
    by (simp add: split_kwargs_filter map_of_filter_keys map_of_filter_not_keys)
  also have "\<dots> = map_of kwargs"
    by (auto simp: fun_eq_iff map_add_def restrict_map_def split: option.splits)
  finally have merge: "map_of (dict_merge (fst (split_kwargs cls kwargs))
      (snd (split_kwargs cls kwargs))) = map_of kwargs" .
  have len: "length (fst (split_kwargs cls kwargs)) + length (snd (split_kwargs cls kwargs)) =
      length kwargs"
    using assms sum_length_filter_compl [of "\<lambda>(k, v). k \<in> ?S" kwargs]
    by (simp add: split_kwargs_filter case_prod_unfold)
  from disj merge len show ?thesis by blast
qed

theorem split_kwargs_lossless_witness:
  "distinct (map fst [(''summary_dropout_prob'', PyInt 1), (''torch_dtype'', PyStr ''float16'')]) \<and>
   keys (fst (split_kwargs PreTrainedModelWrapper
       [(''summary_dropout_prob'', PyInt 1), (''torch_dtype'', PyStr ''float16'')])) \<inter>
   keys (snd (split_kwargs PreTrainedModelWrapper
       [(''summary_dropout_prob'', PyInt 1), (''torch_dtype'', PyStr ''float16'')])) = {} \<and>
   map_of (dict_merge
       (fst (split_kwargs PreTrainedModelWrapper
          [(''summary_dropout_prob'', PyInt 1), (''torch_dtype'', PyStr ''float16'')]))
       (snd (split_kwargs PreTrainedModelWrapper
          [(''summary_dropout_prob'', PyInt 1), (''torch_dtype'', PyStr ''float16'')]))) =
     map_of [(''summary_dropout_prob'', PyInt 1), (''torch_dtype'', PyStr ''float16'')]"
proof -
  let ?kw = "[(''summary_dropout_prob'', PyInt 1), (''torch_dtype'', PyStr ''float16'')]"
  have d: "distinct (map fst ?kw)" by simp
  from d split_kwargs_lossless [OF d, of PreTrainedModelWrapper] show ?thesis by blast
qed

text \<open>
  Claim C7. The allow-list of the base class is the one-element tuple
  \<^verbatim>\<open>("summary_dropout_prob",)\<close>. The class is an argument that every operation only
  reads (the source assigns to no class attribute, and a tuple is immutable), so the
  allow-list is the same in every call; hence for the base class a key of the input is in
  the supported bucket if and only if it is \<^verbatim>\<open>summary_dropout_prob\<close>, and in the
  unsupported bucket if and only if it is any other key.
\<close>

theorem base_allow_list:
  "supported_args PreTrainedModelWrapper = [''summary_dropout_prob''] \<and>
   (key \<in> keys (fst (split_kwargs PreTrainedModelWrapper kwargs)) \<longleftrightarrow>
      key \<in> keys kwargs \<and> key = ''summary_dropout_prob'') \<and>
   (key \<in> keys (snd (split_kwargs PreTrainedModelWrapper kwargs)) \<longleftrightarrow>
      key \<in> keys kwargs \<and> key \<noteq> ''summary_dropout_prob'')"
  by (auto simp: keys_split_kwargs PreTrainedModelWrapper_def)

section \<open>Facts about \<^verbatim>\<open>from_pretrained\<close>\<close>

lemma snd_split_items_indep:
  "snd (split_items sa items s u) = snd (split_items sa items s' u)"
proof (induction items arbitrary: s s' u)
  case Nil
  then show ?case by simp
next
  case (Cons p items)
  obtain key val where p: "p = (key, val)" by (cases p)
  show ?case unfolding p
    using Cons.IH [of "dict_set key val s" u "dict_set key val s'"]
      Cons.IH [of s "dict_set key val u" s']
    by simp
qed

lemma split_items_unsupported_only:
  "split_items sa (filter (\<lambda>(k, v). k \<notin> set sa) items) s u =
     (s, snd (split_items sa items s u))"
proof (induction items arbitrary: s u)
  case Nil
  then show ?case by simp
next
  case (Cons p items)
  obtain key val where p: "p = (key, val)" by (cases p)
  show ?case unfolding p
    using Cons.IH snd_split_items_indep [of sa items s u "dict_set key val s"]
    by simp
qed

lemma split_kwargs_unsupported_only:
  "split_kwargs cls (filter (\<lambda>(k, v). k \<notin> set (supported_args cls)) kwargs) =
     ([], snd (split_kwargs cls kwargs))"
  by (simp add: split_kwargs_def split_items_unsupported_only)

lemma new_wrapper_supported:
  assumes "init_binds cls" and "keys trl_model_args \<subseteq> set (supported_args cls)"
  shows "new_wrapper [pm] trl_model_args = Inr \<lparr>pretrained_model = pm\<rparr>"
proof -
  from assms have "''self'' \<notin> keys trl_model_args" "''pretrained_model'' \<notin> keys trl_model_args"
    by (auto simp: init_binds_def)
  then show ?thesis by (simp add: new_wrapper_def init_def)
qed

lemma new_wrapper_bucket:
  "init_binds cls \<Longrightarrow>
   new_wrapper [pm] (fst (split_kwargs cls kwargs)) = Inr \<lparr>pretrained_model = pm\<rparr>"
  by (rule new_wrapper_supported) (auto simp: keys_split_kwargs)

lemma new_wrapper_empty: "new_wrapper [pm] [] = Inr \<lparr>pretrained_model = pm\<rparr>"
  by (simp add: new_wrapper_def init_def keys_def)

lemma from_pretrained_unfold:
  "from_pretrained ext cls x model_args (Some kwargs) w =
     (if isinstance_str x then
        (case call_method ext (transformers_parent_class cls) From_pretrained
                (x # model_args) (snd (split_kwargs cls kwargs)) w of
           (Inl e, w') \<Rightarrow> (Inl e, w')
         | (Inr pm, w') \<Rightarrow> (new_wrapper [pm] (fst (split_kwargs cls kwargs)), w'))
      else if isinstance_PreTrainedModel x then
        (new_wrapper [x] (fst (split_kwargs cls kwargs)), w)
      else (Inl (ValueError (bad_type_message x)), w))"
  by (simp add: from_pretrained_def kwargs_buckets_def case_prod_unfold)

section \<open>The claims about \<^verbatim>\<open>from_pretrained\<close>\<close>

text \<open>
  In the theorems below \<open>Some kwargs\<close> is the dictionary that the \<^verbatim>\<open>**kwargs\<close>
  parameter of a call holds, and \<open>init_binds cls\<close> says that the allow-list of the class
  names no parameter of \<^verbatim>\<open>__init__\<close>, as the allow-list in the source does.

  Claim C6. For every \<^verbatim>\<open>PreTrainedModel\<close> instance \<open>m\<close> and all keyword arguments,
  \<^verbatim>\<open>from_pretrained(m, **kwargs)\<close> returns a wrapper whose \<^verbatim>\<open>pretrained_model\<close> is
  the object \<open>m\<close> itself (the same identity); no method of the host libraries is called,
  so the world is the one before the call.
\<close>

theorem from_pretrained_holds_instance:
  assumes "init_binds cls"
  shows "from_pretrained ext cls (PyModel m) model_args (Some kwargs) w =
           (Inr \<lparr>pretrained_model = PyModel m\<rparr>, w)"
  using assms by (simp add: from_pretrained_unfold new_wrapper_bucket)

theorem from_pretrained_holds_instance_witness:
  "init_binds PreTrainedModelWrapper \<and>
   from_pretrained ext_log PreTrainedModelWrapper (PyModel 7) []
       (Some [(''summary_dropout_prob'', PyInt 1), (''torch_dtype'', PyStr ''float16'')]) [] =
     (Inr \<lparr>pretrained_model = PyModel 7\<rparr>, [])"
proof -
  have h: "init_binds PreTrainedModelWrapper"
    by (simp add: init_binds_def PreTrainedModelWrapper_def)
  from h from_pretrained_holds_instance [OF h, of ext_log 7 "[]"
      "[(''summary_dropout_prob'', PyInt 1), (''torch_dtype'', PyStr ''float16'')]" "[]"]
  show ?thesis by simp
qed

text \<open>
  Claim C9. The supported keyword arguments have no effect on what
  \<^verbatim>\<open>from_pretrained\<close> does: \<^verbatim>\<open>__init__\<close> takes them in \<^verbatim>\<open>**kwargs\<close> and never
  reads them. A call with any values for keys of \<^verbatim>\<open>supported_args\<close> has the same
  outcome (the wrapper or the exception, and the world) as the call with those keys
  left out.
\<close>

theorem supported_args_have_no_effect:
  assumes "init_binds cls"
  shows "from_pretrained ext cls x model_args (Some kwargs) w =
         from_pretrained ext cls x model_args
           (Some (filter (\<lambda>(k, v). k \<notin> set (supported_args cls)) kwargs)) w"
  using assms
  by (simp add: from_pretrained_unfold split_kwargs_unsupported_only new_wrapper_bucket
      new_wrapper_empty split: prod.splits sum.splits)

theorem supported_args_have_no_effect_witness:
  "init_binds CausalLMWrapper \<and>
   from_pretrained ext_log CausalLMWrapper (PyStr ''gpt2'') []
       (Some [(''summary_dropout_prob'', PyInt 1), (''torch_dtype'', PyStr ''float16'')]) [] =
   from_pretrained ext_log CausalLMWrapper (PyStr ''gpt2'') []
       (Some [(''torch_dtype'', PyStr ''float16'')]) []"
proof -
  have h: "init_binds CausalLMWrapper"
    by (simp add: init_binds_def CausalLMWrapper_def)
  have f: "filter (\<lambda>(k, v). k \<notin> set (supported_args CausalLMWrapper))
       [(''summary_dropout_prob'', PyInt 1), (''torch_dtype'', PyStr ''float16'')] =
       [(''torch_dtype'', PyStr ''float16'')]"
    by (simp add: CausalLMWrapper_def)
  from h supported_args_have_no_effect [OF h, of ext_log "PyStr ''gpt2''" "[]"
      "[(''summary_dropout_prob'', PyInt 1), (''torch_dtype'', PyStr ''float16'')]" "[]"]
  show ?thesis unfolding f by blast
qed

text \<open>
  Claim C5. For every string argument, \<^verbatim>\<open>from_pretrained\<close> loads the model by the
  call \<^verbatim>\<open>transformers_parent_class.from_pretrained\<close> with the string, then the
  positional \<^verbatim>\<open>model_args\<close>, and as keywords exactly the unsupported bucket: the
  entries of \<^verbatim>\<open>kwargs\<close> whose keys are not in \<^verbatim>\<open>supported_args\<close>, in their
  order. No key of the supported bucket is among them. When
  \<^verbatim>\<open>transformers_parent_class\<close> is an object of the host libraries, the call is the
  host's function applied to these arguments; the host is any function, so the equation
  says what it is applied to.
\<close>

theorem loader_gets_unsupported_bucket:
  assumes "distinct (map fst kwargs)"
  shows "from_pretrained ext cls (PyStr name) model_args (Some kwargs) w =
           (case call_method ext (transformers_parent_class cls) From_pretrained
                   (PyStr name # model_args)
                   (filter (\<lambda>(k, v). k \<notin> set (supported_args cls)) kwargs) w of
              (Inl e, w') \<Rightarrow> (Inl e, w')
            | (Inr pm, w') \<Rightarrow>
                (new_wrapper [pm] (filter (\<lambda>(k, v). k \<in> set (supported_args cls)) kwargs), w')) \<and>
         (\<not> builtin (transformers_parent_class cls) \<longrightarrow>
            call_method ext (transformers_parent_class cls) From_pretrained
                (PyStr name # model_args)
                (filter (\<lambda>(k, v). k \<notin> set (supported_args cls)) kwargs) w =
            (case ext (transformers_parent_class cls) From_pretrained
                    (PyStr name # model_args)
                    (filter (\<lambda>(k, v). k \<notin> set (supported_args cls)) kwargs) w of
               (Inl exc, w') \<Rightarrow> (Inl (External exc), w')
             | (Inr pm, w') \<Rightarrow> (Inr pm, w'))) \<and>
         snd (split_kwargs cls kwargs) =
           filter (\<lambda>(k, v). k \<notin> set (supported_args cls)) kwargs \<and>
         keys (snd (split_kwargs cls kwargs)) \<inter> keys (fst (split_kwargs cls kwargs)) = {} \<and>
         keys (snd (split_kwargs cls kwargs)) \<inter> set (supported_args cls) = {}"
proof -
  have "keys (snd (split_kwargs cls kwargs)) \<inter> keys (fst (split_kwargs cls kwargs)) = {}"
    and "keys (snd (split_kwargs cls kwargs)) \<inter> set (supported_args cls) = {}"
    by (auto simp: keys_split_kwargs)
  moreover have "from_pretrained ext cls (PyStr name) model_args (Some kwargs) w =
           (case call_method ext (transformers_parent_class cls) From_pretrained
                   (PyStr name # model_args)
                   (filter (\<lambda>(k, v). k \<notin> set (supported_args cls)) kwargs) w of
              (Inl e, w') \<Rightarrow> (Inl e, w')
            | (Inr pm, w') \<Rightarrow>
                (new_wrapper [pm] (filter (\<lambda>(k, v). k \<in> set (supported_args cls)) kwargs), w'))"
    using assms
    by (simp add: from_pretrained_unfold split_kwargs_filter split: prod.splits sum.splits)
  moreover have "\<not> builtin (transformers_parent_class cls) \<longrightarrow>
            call_method ext (transformers_parent_class cls) From_pretrained
                (PyStr name # model_args)
                (filter (\<lambda>(k, v). k \<notin> set (supported_args cls)) kwargs) w =
            (case ext (transformers_parent_class cls) From_pretrained
                    (PyStr name # model_args)
                    (filter (\<lambda>(k, v). k \<notin> set (supported_args cls)) kwargs) w of
               (Inl exc, w') \<Rightarrow> (Inl (External exc), w')
             | (Inr pm, w') \<Rightarrow> (Inr pm, w'))"
    by (simp add: call_method_def)
  ultimately show ?thesis using assms by (simp add: split_kwargs_filter)
qed

theorem loader_gets_unsupported_bucket_witness:
  "distinct (map fst [(''summary_dropout_prob'', PyInt 1), (''torch_dtype'', PyStr ''float16'')]) \<and>
   \<not> builtin (transformers_parent_class CausalLMWrapper) \<and>
   from_pretrained ext_log CausalLMWrapper (PyStr ''gpt2'') [PyInt 5]
       (Some [(''summary_dropout_prob'', PyInt 1), (''torch_dtype'', PyStr ''float16'')]) [] =
     (Inr \<lparr>pretrained_model = PyModel 1\<rparr>,
      [(PyObject ''type'' 0, From_pretrained, [PyStr ''gpt2'', PyInt 5],
        [(''torch_dtype'', PyStr ''float16'')])])"
proof -
  let ?kw = "[(''summary_dropout_prob'', PyInt 1), (''torch_dtype'', PyStr ''float16'')]"
  have c: "\<not> builtin (transformers_parent_class CausalLMWrapper)"
    by (simp add: CausalLMWrapper_def AutoModelForCausalLM_def)
  have d: "distinct (map fst ?kw)" by simp
  from c d loader_gets_unsupported_bucket [OF d, of ext_log CausalLMWrapper "''gpt2''"
      "[PyInt 5]" "[]"]
  show ?thesis
    by (simp add: ext_log_def CausalLMWrapper_def AutoModelForCausalLM_def new_wrapper_def
        init_def keys_def)
qed

lemma new_wrapper_not_ValueError: "new_wrapper args kwargs \<noteq> Inl (ValueError msg)"
  by (simp add: new_wrapper_def split: list.splits option.splits)

lemma call_method_not_ValueError:
  "call_method ext obj a args kwargs w \<noteq> (Inl (ValueError msg), w')"
  by (auto simp: call_method_def split: prod.splits sum.splits)

lemma dict_del_absent: "key \<notin> keys d \<Longrightarrow> dict_del key d = d"
  by (induction d) (auto simp: dict_del_def keys_def)

text \<open>
  Claim C2, as the specification has it: \<^verbatim>\<open>from_pretrained\<close> raises
  \<^verbatim>\<open>ValueError\<close> if and only if its first argument is neither a string nor a
  \<^verbatim>\<open>PreTrainedModel\<close>, and for a string or a model it returns a wrapper. The second
  half fails for a string: the class of the source has
  \<^verbatim>\<open>transformers_parent_class = None\<close>, and the lookup of \<^verbatim>\<open>from_pretrained\<close> on
  \<open>None\<close> raises \<^verbatim>\<open>AttributeError\<close>.
\<close>

theorem from_pretrained_validation_counterexample:
  "isinstance_str (PyStr ''gpt2'') \<and>
   from_pretrained ext_log PreTrainedModelWrapper (PyStr ''gpt2'') [] (Some []) [] =
     (Inl (AttributeError ''NoneType'' ''from_pretrained''), [])"
  by (simp add: from_pretrained_def kwargs_buckets_def split_kwargs_def call_method_def
      PreTrainedModelWrapper_def)

text \<open>
  Claim C2, amended. \<^verbatim>\<open>from_pretrained\<close> raises its \<^verbatim>\<open>ValueError\<close> if and only
  if the first argument is neither a string nor a \<^verbatim>\<open>PreTrainedModel\<close>. For a
  \<^verbatim>\<open>PreTrainedModel\<close> it returns a wrapper of that model. For a string it returns a
  wrapper exactly when the call of \<^verbatim>\<open>from_pretrained\<close> on
  \<^verbatim>\<open>transformers_parent_class\<close> returns a value (otherwise the exception of that call
  propagates), and when \<^verbatim>\<open>transformers_parent_class\<close> is \<open>None\<close>, as in the base
  class, the call raises \<^verbatim>\<open>AttributeError\<close>.
\<close>

theorem from_pretrained_validation:
  "((\<exists>msg w'. from_pretrained ext cls x model_args (Some kwargs) w =
        (Inl (ValueError msg), w')) \<longleftrightarrow>
      \<not> isinstance_str x \<and> \<not> isinstance_PreTrainedModel x) \<and>
   (isinstance_PreTrainedModel x \<and> init_binds cls \<longrightarrow>
      from_pretrained ext cls x model_args (Some kwargs) w =
        (Inr \<lparr>pretrained_model = x\<rparr>, w)) \<and>
   (isinstance_str x \<and> init_binds cls \<longrightarrow>
      ((\<exists>wr w'. from_pretrained ext cls x model_args (Some kwargs) w = (Inr wr, w')) \<longleftrightarrow>
       (\<exists>pm w'. call_method ext (transformers_parent_class cls) From_pretrained
            (x # model_args) (snd (split_kwargs cls kwargs)) w = (Inr pm, w')))) \<and>
   (isinstance_str x \<and> transformers_parent_class cls = PyNone \<longrightarrow>
      from_pretrained ext cls x model_args (Some kwargs) w =
        (Inl (AttributeError ''NoneType'' ''from_pretrained''), w))"
proof -
  have a: "(\<exists>msg w'. from_pretrained ext cls x model_args (Some kwargs) w =
              (Inl (ValueError msg), w')) \<longleftrightarrow>
            \<not> isinstance_str x \<and> \<not> isinstance_PreTrainedModel x"
  proof (cases x)
    case (PyStr s)
    then show ?thesis
      using call_method_not_ValueError [of ext "transformers_parent_class cls" From_pretrained
          "x # model_args" "snd (split_kwargs cls kwargs)" w]
      by (auto simp: from_pretrained_unfold new_wrapper_not_ValueError
          split: prod.splits sum.splits)
  qed (simp_all add: from_pretrained_unfold new_wrapper_not_ValueError)
  have b: "isinstance_PreTrainedModel x \<and> init_binds cls \<longrightarrow>
            from_pretrained ext cls x model_args (Some kwargs) w =
              (Inr \<lparr>pretrained_model = x\<rparr>, w)"
    by (cases x) (simp_all add: from_pretrained_unfold new_wrapper_bucket)
  have c: "isinstance_str x \<and> init_binds cls \<longrightarrow>
            ((\<exists>wr w'. from_pretrained ext cls x model_args (Some kwargs) w = (Inr wr, w')) \<longleftrightarrow>
             (\<exists>pm w'. call_method ext (transformers_parent_class cls) From_pretrained
                  (x # model_args) (snd (split_kwargs cls kwargs)) w = (Inr pm, w')))"
    by (auto simp: from_pretrained_unfold new_wrapper_bucket split: prod.splits sum.splits)
  have d: "isinstance_str x \<and> transformers_parent_class cls = PyNone \<longrightarrow>
            from_pretrained ext cls x model_args (Some kwargs) w =
              (Inl (AttributeError ''NoneType'' ''from_pretrained''), w)"
    by (simp add: from_pretrained_unfold call_method_def)
  from a b c d show ?thesis by blast
qed

theorem from_pretrained_validation_witness:
  "init_binds PreTrainedModelWrapper \<and> init_binds CausalLMWrapper \<and>
   \<not> isinstance_str (PyInt 3) \<and> \<not> isinstance_PreTrainedModel (PyInt 3) \<and>
   (\<exists>msg w'. from_pretrained ext_log PreTrainedModelWrapper (PyInt 3) [] (Some []) [] =
      (Inl (ValueError msg), w')) \<and>
   isinstance_PreTrainedModel (PyModel 7) \<and>
   from_pretrained ext_log PreTrainedModelWrapper (PyModel 7) [] (Some []) [] =
     (Inr \<lparr>pretrained_model = PyModel 7\<rparr>, []) \<and>
   isinstance_str (PyStr ''gpt2'') \<and>
   (\<exists>wr w'. from_pretrained ext_log CausalLMWrapper (PyStr ''gpt2'') [] (Some []) [] =
      (Inr wr, w')) \<and>
   transformers_parent_class PreTrainedModelWrapper = PyNone \<and>
   from_pretrained ext_log PreTrainedModelWrapper (PyStr ''gpt2'') [] (Some []) [] =
     (Inl (AttributeError ''NoneType'' ''from_pretrained''), [])"
proof -
  have h: "init_binds PreTrainedModelWrapper"
    by (simp add: init_binds_def PreTrainedModelWrapper_def)
  have h': "init_binds CausalLMWrapper"
    by (simp add: init_binds_def CausalLMWrapper_def)
  have n: "transformers_parent_class PreTrainedModelWrapper = PyNone"
    by (simp add: PreTrainedModelWrapper_def)
  have l: "\<exists>pm w'. call_method ext_log (transformers_parent_class CausalLMWrapper)
      From_pretrained [PyStr ''gpt2''] (snd (split_kwargs CausalLMWrapper [])) [] = (Inr pm, w')"
    by (simp add: call_method_def ext_log_def CausalLMWrapper_def AutoModelForCausalLM_def)
  from h h' n l
    from_pretrained_validation [of ext_log PreTrainedModelWrapper "PyInt 3" "[]" "[]" "[]"]
    from_pretrained_validation [of ext_log PreTrainedModelWrapper "PyModel 7" "[]" "[]" "[]"]
    from_pretrained_validation [of ext_log CausalLMWrapper "PyStr ''gpt2''" "[]" "[]" "[]"]
    from_pretrained_validation [of ext_log PreTrainedModelWrapper "PyStr ''gpt2''" "[]" "[]" "[]"]
  show ?thesis by simp
qed

text \<open>
  Claim C10. The branch of \<^verbatim>\<open>from_pretrained\<close> for \<^verbatim>\<open>kwargs is None\<close> is never
  taken: in every call whose arguments fit the signature, the \<^verbatim>\<open>**kwargs\<close> parameter
  holds a dictionary (the keywords of the call other than
  \<^verbatim>\<open>pretrained_model_name_or_path\<close>), not \<open>None\<close>, so the two buckets are those of
  \<^verbatim>\<open>_split_kwargs\<close> on that dictionary.
\<close>

theorem kwargs_never_none:
  assumes "bind_from_pretrained args kwargs = Inr (x, model_args, kw)"
  shows "kw \<noteq> None \<and>
         kw = Some (dict_del ''pretrained_model_name_or_path'' kwargs) \<and>
         kwargs_buckets cls kw =
           split_kwargs cls (dict_del ''pretrained_model_name_or_path'' kwargs) \<and>
         invoke ext cls self From_pretrained args kwargs w =
           lift_result Created
             (from_pretrained ext cls x model_args
                (Some (dict_del ''pretrained_model_name_or_path'' kwargs)) w)"
proof -
  have kw: "kw = Some (dict_del ''pretrained_model_name_or_path'' kwargs)"
    using assms
    by (auto simp: bind_from_pretrained_def dict_del_absent
        split: if_splits list.splits option.splits)
  then show ?thesis using assms by (simp add: kwargs_buckets_def invoke_def)
qed

theorem kwargs_never_none_witness:
  "bind_from_pretrained [PyModel 7] [(''summary_dropout_prob'', PyInt 1)] =
     Inr (PyModel 7, [], Some [(''summary_dropout_prob'', PyInt 1)]) \<and>
   Some [(''summary_dropout_prob'', PyInt 1)] \<noteq> None \<and>
   kwargs_buckets PreTrainedModelWrapper (Some [(''summary_dropout_prob'', PyInt 1)]) =
     split_kwargs PreTrainedModelWrapper [(''summary_dropout_prob'', PyInt 1)]"
proof -
  have b: "bind_from_pretrained [PyModel 7] [(''summary_dropout_prob'', PyInt 1)] =
     Inr (PyModel 7, [], Some [(''summary_dropout_prob'', PyInt 1)])"
    by (simp add: bind_from_pretrained_def keys_def)
  have e: "dict_del ''pretrained_model_name_or_path'' [(''summary_dropout_prob'', PyInt 1)] =
      [(''summary_dropout_prob'', PyInt 1)]"
    by (simp add: dict_del_def)
  from b kwargs_never_none [OF b, of PreTrainedModelWrapper ext_log
      "\<lparr>pretrained_model = PyNone\<rparr>" "[]"]
  show ?thesis unfolding e by simp
qed

section \<open>The claims about the forwarding methods\<close>

text \<open>
  Claim C4. For every wrapper instance and all positional and keyword arguments,
  \<^verbatim>\<open>push_to_hub\<close>, \<^verbatim>\<open>save_pretrained\<close> and \<^verbatim>\<open>state_dict\<close> do exactly what the
  call of the same-named method on the wrapped \<^verbatim>\<open>pretrained_model\<close> does with the
  same \<^verbatim>\<open>args\<close> and \<^verbatim>\<open>kwargs\<close>: the same result or exception and the same world.
  With the recording host the call that arrives is the one that was made.
\<close>

theorem forwarders_pass_arguments:
  "push_to_hub ext self args kwargs w =
     call_method ext (pretrained_model self) Push_to_hub args kwargs w \<and>
   save_pretrained ext self args kwargs w =
     call_method ext (pretrained_model self) Save_pretrained args kwargs w \<and>
   state_dict ext self args kwargs w =
     call_method ext (pretrained_model self) State_dict args kwargs w"
  by (simp add: push_to_hub_def save_pretrained_def state_dict_def)

theorem forwarders_pass_arguments_witness:
  "push_to_hub ext_log \<lparr>pretrained_model = PyModel 3\<rparr> [PyStr ''me/model'']
       [(''private'', PyInt 1)] [] =
     (Inr (PyModel 1),
      [(PyModel 3, Push_to_hub, [PyStr ''me/model''], [(''private'', PyInt 1)])])"
  using forwarders_pass_arguments [of ext_log "\<lparr>pretrained_model = PyModel 3\<rparr>"
      "[PyStr ''me/model'']" "[(''private'', PyInt 1)]" "[]"]
  by (simp add: call_method_def ext_log_def)

text \<open>
  Claim C3, as the specification has it: exactly four methods of the wrapped object are
  re-exposed by pure delegation. The class has four public methods, and one of them is
  no delegation: \<^verbatim>\<open>from_pretrained\<close> on an integer raises \<^verbatim>\<open>ValueError\<close> without
  calling anything, where the wrapped object's \<^verbatim>\<open>from_pretrained\<close> is called and
  returns.
\<close>

theorem from_pretrained_is_no_delegation:
  "binds From_pretrained [PyInt 1] [] \<and>
   invoke ext_log PreTrainedModelWrapper \<lparr>pretrained_model = PyModel 0\<rparr>
       From_pretrained [PyInt 1] [] [] =
     (Inl (ValueError (bad_type_message (PyInt 1))), []) \<and>
   forwarded ext_log \<lparr>pretrained_model = PyModel 0\<rparr> From_pretrained [PyInt 1] [] [] =
     (Inr (Returned (PyModel 1)), [(PyModel 0, From_pretrained, [PyInt 1], [])])"
  by (simp add: binds_def bind_from_pretrained_def keys_def invoke_def forwarded_def
      lift_result_def from_pretrained_def kwargs_buckets_def split_kwargs_def
      call_method_def ext_log_def)

lemma forwarded_never_ValueError:
  "forwarded ext self a args kwargs w \<noteq> (Inl (ValueError msg), w')"
  by (auto simp: forwarded_def lift_result_def call_method_def split: prod.splits sum.splits)

lemma from_pretrained_not_delegated: "\<not> delegates ext From_pretrained"
proof
  assume d: "delegates ext From_pretrained"
  have b: "binds From_pretrained [PyInt 1] []"
    by (simp add: binds_def bind_from_pretrained_def keys_def)
  have "invoke ext PreTrainedModelWrapper \<lparr>pretrained_model = PyModel 0\<rparr>
          From_pretrained [PyInt 1] [] w =
        (Inl (ValueError (bad_type_message (PyInt 1))), w)" for w
    by (simp add: bind_from_pretrained_def keys_def invoke_def lift_result_def
        from_pretrained_def kwargs_buckets_def split_kwargs_def)
  moreover have "invoke ext PreTrainedModelWrapper \<lparr>pretrained_model = PyModel 0\<rparr>
          From_pretrained [PyInt 1] [] w =
        forwarded ext \<lparr>pretrained_model = PyModel 0\<rparr> From_pretrained [PyInt 1] [] w" for w
    using d b unfolding delegates_def by blast
  ultimately show False
    using forwarded_never_ValueError by metis
qed

lemma forwarders_delegated:
  "a \<noteq> From_pretrained \<Longrightarrow> delegates ext a"
  by (cases a)
    (simp_all add: delegates_def binds_def invoke_def forwarded_def push_to_hub_def
      save_pretrained_def state_dict_def)

text \<open>
  Claim C3, amended. Exactly three methods are pure delegations to the same-named method
  of the wrapped object: \<^verbatim>\<open>push_to_hub\<close>, \<^verbatim>\<open>save_pretrained\<close> and
  \<^verbatim>\<open>state_dict\<close>. The fourth public method, \<^verbatim>\<open>from_pretrained\<close>, is not one,
  whatever the host libraries do.
\<close>

theorem three_methods_delegate:
  "(delegates ext a \<longleftrightarrow> a \<noteq> From_pretrained) \<and>
   {a. delegates ext a} = {Push_to_hub, Save_pretrained, State_dict} \<and>
   card {a. delegates ext a} = 3"
proof -
  have iff: "delegates ext a \<longleftrightarrow> a \<noteq> From_pretrained" for a
    using from_pretrained_not_delegated [of ext] forwarders_delegated [of a ext] by blast
  have "{a. delegates ext a} = {Push_to_hub, Save_pretrained, State_dict}"
  proof (rule set_eqI)
    fix a show "a \<in> {a. delegates ext a} \<longleftrightarrow> a \<in> {Push_to_hub, Save_pretrained, State_dict}"
      by (cases a) (simp_all add: iff)
  qed
  then show ?thesis using iff by simp
qed

theorem three_methods_delegate_witness:
  "binds Push_to_hub [PyStr ''me/model''] [(''private'', PyInt 1)] \<and>
   invoke ext_log PreTrainedModelWrapper \<lparr>pretrained_model = PyModel 3\<rparr> Push_to_hub
       [PyStr ''me/model''] [(''private'', PyInt 1)] [] =
   forwarded ext_log \<lparr>pretrained_model = PyModel 3\<rparr> Push_to_hub
       [PyStr ''me/model''] [(''private'', PyInt 1)] [] \<and>
   \<not> delegates ext_log From_pretrained"
proof -
  have b: "binds Push_to_hub [PyStr ''me/model''] [(''private'', PyInt 1)]"
    by (simp add: binds_def keys_def)
  have "delegates ext_log Push_to_hub" and n: "\<not> delegates ext_log From_pretrained"
    using three_methods_delegate [of ext_log Push_to_hub]
      three_methods_delegate [of ext_log From_pretrained] by simp_all
  with b show ?thesis unfolding delegates_def by blast
qed

end
